theory Spec2Isabelle
  imports Main "HOL-Library.AList" "HOL-Library.Sublist"
begin

section \<open>Python values\<close>

text \<open>
  A Python \<open>str\<close> is a sequence of Unicode code points, so text is a list of code points
  and \<open>len\<close> is the length of that list. \<open>u\<close> writes an ASCII literal of the source
  as such a list; literals with Cyrillic letters are written out as code points.
\<close>

type_synonym ustr = "nat list"

definition u :: "string \<Rightarrow> ustr" where
  "u s = map of_char s"

text \<open>
  The values a patient field or a JSON record can hold: \<open>None\<close>, \<open>bool\<close>, \<open>int\<close>,
  \<open>str\<close>, \<open>list\<close> and \<open>dict\<close> with text keys (in insertion order). Floating point
  numbers are not part of the model.
\<close>

datatype pyval =
    PNone
  | PBool bool
  | PInt int
  | PStr ustr
  | PList "pyval list"
  | PDict "(ustr \<times> pyval) list"

type_synonym pydict = "(ustr \<times> pyval) list"

text \<open>The exceptions that the modelled functions raise.\<close>

datatype py_error =
    ValueError ustr
  | PermissionDeniedError ustr
  | AttributeError
  | TypeError
  | KeyError ustr

text \<open>Truth value of an object, as \<open>if x\<close> and \<open>x if c else y\<close> test it.\<close>

fun truthy :: "pyval \<Rightarrow> bool" where
  "truthy PNone = False"
| "truthy (PBool b) = b"
| "truthy (PInt i) = (i \<noteq> 0)"
| "truthy (PStr s) = (s \<noteq> [])"
| "truthy (PList xs) = (xs \<noteq> [])"
| "truthy (PDict d) = (d \<noteq> [])"

text \<open>
  \<open>str.lower\<close>, code point by code point, on the Basic Latin, Latin-1 Supplement and
  Cyrillic blocks (\<open>A-Z\<close>, U+00C0-U+00DE without U+00D7, U+0400-U+042F); other code
  points are left as they are. The class names and marker phrases of the program consist
  of small letters of the Basic Latin and Cyrillic blocks and the space.
\<close>

definition lower_cp :: "nat \<Rightarrow> nat" where
  "lower_cp c =
     (if 65 \<le> c \<and> c \<le> 90 then c + 32
      else if 192 \<le> c \<and> c \<le> 222 \<and> c \<noteq> 215 then c + 32
      else if 1040 \<le> c \<and> c \<le> 1071 then c + 32
      else if 1024 \<le> c \<and> c \<le> 1039 then c + 80
      else c)"

definition lower :: "ustr \<Rightarrow> ustr" where
  "lower s = map lower_cp s"

text \<open>\<open>d.get(k, default)\<close>; \<open>d.get(k)\<close> is \<open>dict_get d k PNone\<close>.\<close>

definition dict_get :: "pydict \<Rightarrow> ustr \<Rightarrow> pyval \<Rightarrow> pyval" where
  "dict_get d k dflt = (case map_of d k of None \<Rightarrow> dflt | Some v \<Rightarrow> v)"

text \<open>
  \<open>d[k]\<close> for a text key: a \<open>KeyError\<close> when a dict lacks the key, a \<open>TypeError\<close>
  when the object is not a dict (text and lists take integer indices only, the other
  values cannot be subscripted).
\<close>

fun subscript :: "pyval \<Rightarrow> ustr \<Rightarrow> py_error + pyval" where
  "subscript (PDict d) k = (case map_of d k of None \<Rightarrow> Inl (KeyError k) | Some v \<Rightarrow> Inr v)"
| "subscript v k = Inl TypeError"

text \<open>
  The items a \<open>for\<close> loop takes from an object: the elements of a list, the keys of a
  dict, the characters of a text; the other values are not iterable.
\<close>

fun iterate :: "pyval \<Rightarrow> py_error + pyval list" where
  "iterate (PList xs) = Inr xs"
| "iterate (PDict d) = Inr (map (\<lambda>kv. PStr (fst kv)) d)"
| "iterate (PStr s) = Inr (map (\<lambda>c. PStr [c]) s)"
| "iterate v = Inl TypeError"

text \<open>\<open>len\<close>: defined on text, lists and dicts.\<close>

fun py_len :: "pyval \<Rightarrow> py_error + nat" where
  "py_len (PStr s) = Inr (length s)"
| "py_len (PList xs) = Inr (length xs)"
| "py_len (PDict d) = Inr (length d)"
| "py_len v = Inl TypeError"

text \<open>
  \<open>x == y\<close> on values: \<open>bool\<close> is a subtype of \<open>int\<close> (\<open>True == 1\<close>), lists are
  equal element by element, dicts are equal when they have the same keys with equal
  values, in any order; values of different kinds are unequal.
\<close>

fun list_items_eq :: "(pyval \<Rightarrow> bool) list \<Rightarrow> pyval list \<Rightarrow> bool" where
  "list_items_eq [] ys = (ys = [])"
| "list_items_eq (eq_x # fs) [] = False"
| "list_items_eq (eq_x # fs) (y # ys) = (eq_x y \<and> list_items_eq fs ys)"

fun dict_items_eq :: "(ustr \<times> (pyval \<Rightarrow> bool)) list \<Rightarrow> pydict \<Rightarrow> bool" where
  "dict_items_eq [] e = True"
| "dict_items_eq ((k, eq_v) # d) e =
     (case map_of e k of None \<Rightarrow> False | Some w \<Rightarrow> eq_v w \<and> dict_items_eq d e)"

primrec py_eq :: "pyval \<Rightarrow> pyval \<Rightarrow> bool" where
  "py_eq PNone y = (y = PNone)"
| "py_eq (PBool b) y =
     (case y of PBool c \<Rightarrow> b = c | PInt j \<Rightarrow> of_bool b = j | _ \<Rightarrow> False)"
| "py_eq (PInt i) y =
     (case y of PBool c \<Rightarrow> i = of_bool c | PInt j \<Rightarrow> i = j | _ \<Rightarrow> False)"
| "py_eq (PStr s) y = (y = PStr s)"
| "py_eq (PList xs) y =
     (case y of PList ys \<Rightarrow> list_items_eq (map py_eq xs) ys | _ \<Rightarrow> False)"
| "py_eq (PDict d) y =
     (case y of
        PDict e \<Rightarrow> length d = length e \<and> dict_items_eq (map (map_prod id py_eq) d) e
      | _ \<Rightarrow> False)"

text \<open>
  \<open>x < y\<close> on values: numbers by value, text by code points, lists by their first
  unequal elements (or by length when one is a prefix of the other); every other pair
  of operands raises \<open>TypeError\<close>. \<open>x > y\<close> is \<open>py_lt y x\<close>.
\<close>

fun lex_lt :: "ustr \<Rightarrow> ustr \<Rightarrow> bool" where
  "lex_lt [] t = (t \<noteq> [])"
| "lex_lt (c # s) [] = False"
| "lex_lt (c # s) (d # t) = (c < d \<or> (c = d \<and> lex_lt s t))"

fun list_items_lt ::
  "((pyval \<Rightarrow> bool) \<times> (pyval \<Rightarrow> py_error + bool)) list \<Rightarrow> pyval list \<Rightarrow> py_error + bool"
where
  "list_items_lt [] ys = Inr (ys \<noteq> [])"
| "list_items_lt (f # fs) [] = Inr False"
| "list_items_lt ((eq_x, lt_x) # fs) (y # ys) =
     (if eq_x y then list_items_lt fs ys else lt_x y)"

primrec py_lt :: "pyval \<Rightarrow> pyval \<Rightarrow> py_error + bool" where
  "py_lt PNone y = Inl TypeError"
| "py_lt (PBool b) y =
     (case y of
        PBool c \<Rightarrow> Inr ((of_bool b :: int) < of_bool c)
      | PInt j \<Rightarrow> Inr (of_bool b < j)
      | _ \<Rightarrow> Inl TypeError)"
| "py_lt (PInt i) y =
     (case y of
        PBool c \<Rightarrow> Inr (i < of_bool c)
      | PInt j \<Rightarrow> Inr (i < j)
      | _ \<Rightarrow> Inl TypeError)"
| "py_lt (PStr s) y = (case y of PStr t \<Rightarrow> Inr (lex_lt s t) | _ \<Rightarrow> Inl TypeError)"
| "py_lt (PList xs) y =
     (case y of
        PList ys \<Rightarrow> list_items_lt (zip (map py_eq xs) (map py_lt xs)) ys
      | _ \<Rightarrow> Inl TypeError)"
| "py_lt (PDict d) y = Inl TypeError"

definition py_gt :: "pyval \<Rightarrow> pyval \<Rightarrow> py_error + bool" where
  "py_gt x y = py_lt y x"

text \<open>\<open>needle in hay\<close> on text: \<open>needle\<close> occurs in \<open>hay\<close> as a contiguous piece.\<close>

fun isin :: "ustr \<Rightarrow> ustr \<Rightarrow> bool" where
  "isin needle [] = (needle = [])"
| "isin needle (c # cs) = (prefix needle (c # cs) \<or> isin needle cs)"

text \<open>\<open>sep.join(xs)\<close>.\<close>

fun join :: "ustr \<Rightarrow> ustr list \<Rightarrow> ustr" where
  "join sep [] = []"
| "join sep [x] = x"
| "join sep (x # y # ys) = x @ sep @ join sep (y # ys)"

text \<open>
  Sequencing of steps that may raise: the first exception ends the computation.
\<close>

definition bind_err :: "py_error + 'a \<Rightarrow> ('a \<Rightarrow> py_error + 'b) \<Rightarrow> py_error + 'b" where
  "bind_err m f = (case m of Inl e \<Rightarrow> Inl e | Inr x \<Rightarrow> f x)"

text \<open>
  What \<open>print\<close> wrote so far, one text per call. A method that prints or assigns takes
  the state it works on and returns the new state.
\<close>

type_synonym console = "ustr list"

section \<open>Patients\<close>

text \<open>
  The private fields of class \<open>Patient\<close>. \<open>__init__\<close> stores its arguments as they
  come, so every field holds an arbitrary value.
\<close>

record Patient =
  patient_id :: pyval
  name :: pyval
  age :: pyval
  gender :: pyval
  medical_history :: pyval

text \<open>
  An instance of one of the four concrete subclasses of \<open>Patient\<close>: the inherited
  fields and the subclass's own field (\<open>PatientWithNotifications\<close> has none).
\<close>

datatype patient =
    AdultPatient (base_of: Patient) (occupation: pyval)
  | ChildPatient (base_of: Patient) (guardian: pyval)
  | SeniorPatient (base_of: Patient) (chronic_conditions: pyval)
  | PatientWithNotifications (base_of: Patient)

text \<open>The class objects created with metaclass \<open>PatientMeta\<close>, in source order.\<close>

datatype cls =
    Patient_class
  | AdultPatient_class
  | ChildPatient_class
  | SeniorPatient_class
  | PatientWithNotifications_class

fun class_name :: "cls \<Rightarrow> ustr" where
  "class_name Patient_class = u ''Patient''"
| "class_name AdultPatient_class = u ''AdultPatient''"
| "class_name ChildPatient_class = u ''ChildPatient''"
| "class_name SeniorPatient_class = u ''SeniorPatient''"
| "class_name PatientWithNotifications_class = u ''PatientWithNotifications''"

fun class_of :: "patient \<Rightarrow> cls" where
  "class_of (AdultPatient b x) = AdultPatient_class"
| "class_of (ChildPatient b x) = ChildPatient_class"
| "class_of (SeniorPatient b x) = SeniorPatient_class"
| "class_of (PatientWithNotifications b) = PatientWithNotifications_class"

subsection \<open>The registry of \<open>PatientMeta\<close>\<close>

text \<open>
  \<open>PatientMeta.__new__\<close> runs once for every class statement whose metaclass is
  \<open>PatientMeta\<close> and stores the class under its lowercased name, except \<open>Patient\<close>
  itself. \<open>registry\<close> is \<open>PatientMeta._registry\<close> after the module is loaded.
\<close>

definition PatientMeta_new :: "(ustr \<rightharpoonup> cls) \<Rightarrow> cls \<Rightarrow> (ustr \<rightharpoonup> cls)" where
  "PatientMeta_new reg c =
     (if class_name c \<noteq> u ''Patient'' then reg(lower (class_name c) \<mapsto> c) else reg)"

definition registry :: "ustr \<rightharpoonup> cls" where
  "registry =
     foldl PatientMeta_new Map.empty
       [Patient_class, AdultPatient_class, ChildPatient_class, SeniorPatient_class,
        PatientWithNotifications_class]"

text \<open>\<open>PatientMeta.get_patient_class\<close> for a tag that is text.\<close>

definition get_patient_class :: "ustr \<Rightarrow> cls option" where
  "get_patient_class patient_type = registry (lower patient_type)"

subsection \<open>Calling a constructor\<close>

text \<open>
  The parameters of each \<open>__init__\<close> after \<open>self\<close>. None of them has a default value.
\<close>

definition Patient_params :: "ustr list" where
  "Patient_params =
     [u ''patient_id'', u ''name'', u ''age'', u ''gender'', u ''medical_history'']"

fun init_params :: "cls \<Rightarrow> ustr list" where
  "init_params Patient_class = Patient_params"
| "init_params AdultPatient_class = Patient_params @ [u ''occupation'']"
| "init_params ChildPatient_class = Patient_params @ [u ''guardian'']"
| "init_params SeniorPatient_class = Patient_params @ [u ''chronic_conditions'']"
| "init_params PatientWithNotifications_class = Patient_params"

text \<open>
  Binding positional and keyword arguments to parameters, as a call does: the positional
  arguments fill the first parameters, each keyword must name one of the remaining
  parameters, and every parameter must receive a value; anything else is a
  \<open>TypeError\<close>. The result lists the values in parameter order.
\<close>

fun bind_kw :: "ustr list \<Rightarrow> pydict \<Rightarrow> py_error + pyval list" where
  "bind_kw [] kwargs = Inr []"
| "bind_kw (p # ps) kwargs =
     (case map_of kwargs p of
        None \<Rightarrow> Inl TypeError
      | Some v \<Rightarrow> (case bind_kw ps kwargs of Inl e \<Rightarrow> Inl e | Inr vs \<Rightarrow> Inr (v # vs)))"

definition bind_args :: "ustr list \<Rightarrow> pyval list \<Rightarrow> pydict \<Rightarrow> py_error + pyval list" where
  "bind_args params args kwargs =
     (if length params < length args then Inl TypeError
      else if \<not> distinct (map fst kwargs) then Inl TypeError
      else if \<not> list_all (\<lambda>k. k \<in> set (drop (length args) params)) (map fst kwargs)
        then Inl TypeError
      else (case bind_kw (drop (length args) params) kwargs of
              Inl e \<Rightarrow> Inl e
            | Inr vs \<Rightarrow> Inr (args @ vs)))"

text \<open>\<open>Patient.__init__\<close>: the five fields are stored without any check.\<close>

definition Patient_init :: "pyval \<Rightarrow> pyval \<Rightarrow> pyval \<Rightarrow> pyval \<Rightarrow> pyval \<Rightarrow> Patient" where
  "Patient_init pid nm ag gd mh =
     \<lparr>patient_id = pid, name = nm, age = ag, gender = gd, medical_history = mh\<rparr>"

text \<open>
  \<open>patient_class(*args, **kwargs)\<close>. \<open>Patient\<close> itself is abstract and cannot be
  instantiated.
\<close>

fun instantiate :: "cls \<Rightarrow> pyval list \<Rightarrow> pydict \<Rightarrow> py_error + patient" where
  "instantiate Patient_class args kwargs = Inl TypeError"
| "instantiate AdultPatient_class args kwargs =
     (case bind_args (init_params AdultPatient_class) args kwargs of
        Inr [pid, nm, ag, gd, mh, x] \<Rightarrow> Inr (AdultPatient (Patient_init pid nm ag gd mh) x)
      | _ \<Rightarrow> Inl TypeError)"
| "instantiate ChildPatient_class args kwargs =
     (case bind_args (init_params ChildPatient_class) args kwargs of
        Inr [pid, nm, ag, gd, mh, x] \<Rightarrow> Inr (ChildPatient (Patient_init pid nm ag gd mh) x)
      | _ \<Rightarrow> Inl TypeError)"
| "instantiate SeniorPatient_class args kwargs =
     (case bind_args (init_params SeniorPatient_class) args kwargs of
        Inr [pid, nm, ag, gd, mh, x] \<Rightarrow> Inr (SeniorPatient (Patient_init pid nm ag gd mh) x)
      | _ \<Rightarrow> Inl TypeError)"
| "instantiate PatientWithNotifications_class args kwargs =
     (case bind_args (init_params PatientWithNotifications_class) args kwargs of
        Inr [pid, nm, ag, gd, mh] \<Rightarrow> Inr (PatientWithNotifications (Patient_init pid nm ag gd mh))
      | _ \<Rightarrow> Inl TypeError)"

subsection \<open>Serialization of a patient\<close>

definition Patient_to_dict :: "patient \<Rightarrow> pydict" where
  "Patient_to_dict self =
     (let base_dict =
        [(u ''patient_id'', patient_id (base_of self)),
         (u ''name'', name (base_of self)),
         (u ''age'', age (base_of self)),
         (u ''gender'', gender (base_of self)),
         (u ''medical_history'',
            if truthy (medical_history (base_of self)) then medical_history (base_of self)
            else PStr (u '''')),
         (u ''type'', PStr (lower (class_name (class_of self))))]
      in case self of
           AdultPatient b x \<Rightarrow> AList.update (u ''occupation'') x base_dict
         | ChildPatient b x \<Rightarrow> AList.update (u ''guardian'') x base_dict
         | SeniorPatient b x \<Rightarrow> AList.update (u ''chronic_conditions'') x base_dict
         | PatientWithNotifications b \<Rightarrow> base_dict)"

text \<open>
  The text \<open>Neizvestnyj tip pacienta: \<close> (in Cyrillic letters) that starts the message
  of the \<open>ValueError\<close> for an unknown type.
\<close>

definition unknown_type_prefix :: ustr where
  "unknown_type_prefix =
     [1053, 1077, 1080, 1079, 1074, 1077, 1089, 1090, 1085, 1099, 1081, 32, 1090,
      1080, 1087, 32, 1087, 1072, 1094, 1080, 1077, 1085, 1090, 1072, 58, 32]"

text \<open>
  \<open>Patient.from_dict\<close>. \<open>get_patient_class\<close> calls \<open>lower\<close> on the value under
  \<open>type\<close>; a value that is not text (\<open>None\<close> when the key is absent) has no such
  method, which raises \<open>AttributeError\<close>.
\<close>

definition Patient_from_dict :: "pydict \<Rightarrow> py_error + patient" where
  "Patient_from_dict data =
     (case dict_get data (u ''type'') PNone of
        PStr patient_type \<Rightarrow>
          (case get_patient_class patient_type of
             None \<Rightarrow> Inl (ValueError (unknown_type_prefix @ patient_type))
           | Some patient_class \<Rightarrow>
               (let extra_args =
                  (if patient_class = AdultPatient_class
                     then [(u ''occupation'', dict_get data (u ''occupation'') (PStr (u '''')))]
                   else if patient_class = ChildPatient_class
                     then [(u ''guardian'', dict_get data (u ''guardian'') (PStr (u '''')))]
                   else if patient_class = SeniorPatient_class
                     then [(u ''chronic_conditions'',
                            dict_get data (u ''chronic_conditions'') (PStr (u '''')))]
                   else [])
                in instantiate patient_class []
                     ([(u ''patient_id'', dict_get data (u ''patient_id'') PNone),
                       (u ''name'', dict_get data (u ''name'') PNone),
                       (u ''age'', dict_get data (u ''age'') PNone),
                       (u ''gender'', dict_get data (u ''gender'') PNone),
                       (u ''medical_history'',
                          dict_get data (u ''medical_history'') (PStr (u '''')))]
                      @ extra_args)))
      | _ \<Rightarrow> Inl AttributeError)"

subsection \<open>Setters\<close>

fun with_base :: "(Patient \<Rightarrow> Patient) \<Rightarrow> patient \<Rightarrow> patient" where
  "with_base f (AdultPatient b x) = AdultPatient (f b) x"
| "with_base f (ChildPatient b x) = ChildPatient (f b) x"
| "with_base f (SeniorPatient b x) = SeniorPatient (f b) x"
| "with_base f (PatientWithNotifications b) = PatientWithNotifications (f b)"

text \<open>The message "inadmissible age" of line 77, in Cyrillic letters.\<close>

definition msg_invalid_age :: ustr where
  "msg_invalid_age =
     [1053, 1077, 1076, 1086, 1087, 1091, 1089, 1090, 1080, 1084, 1099, 1081, 32,
      1074, 1086, 1079, 1088, 1072, 1089, 1090]"

text \<open>
  The setter of \<open>age\<close>: \<open>1 < age < 110\<close> is \<open>1 < age and age < 110\<close>; a value that
  cannot be compared with a number raises \<open>TypeError\<close>. Outside the range the setter
  prints and returns normally.
\<close>

definition set_age ::
  "pyval \<Rightarrow> patient \<times> console \<Rightarrow> (py_error + unit) \<times> patient \<times> console" where
  "set_age new_age st =
     (case st of (self, out) \<Rightarrow>
        (case bind_err (py_lt (PInt 1) new_age)
                (\<lambda>above. if above then py_lt new_age (PInt 110) else Inr False) of
           Inl e \<Rightarrow> (Inl e, self, out)
         | Inr True \<Rightarrow> (Inr (), with_base (\<lambda>b. b\<lparr>age := new_age\<rparr>) self, out)
         | Inr False \<Rightarrow> (Inr (), self, out @ [msg_invalid_age])))"

text \<open>The two gender codes of line 81 (Cyrillic small letters) and the message
  "inadmissible gender" of line 84.\<close>

definition gender_m :: ustr where
  "gender_m = [1084]"

definition gender_f :: ustr where
  "gender_f = [1078]"

definition msg_invalid_gender :: ustr where
  "msg_invalid_gender =
     [1053, 1077, 1076, 1086, 1087, 1091, 1089, 1090, 1080, 1084, 1099, 1081, 32,
      1087, 1086, 1083]"

definition set_gender ::
  "pyval \<Rightarrow> patient \<times> console \<Rightarrow> (py_error + unit) \<times> patient \<times> console" where
  "set_gender new_gender st =
     (case st of (self, out) \<Rightarrow>
        if py_eq new_gender (PStr gender_m) \<or> py_eq new_gender (PStr gender_f)
        then (Inr (), with_base (\<lambda>b. b\<lparr>gender := new_gender\<rparr>) self, out)
        else (Inr (), self, out @ [msg_invalid_gender]))"

subsection \<open>Comparison of patients\<close>

text \<open>\<open>Patient.__lt__\<close>, \<open>Patient.__gt__\<close> and \<open>Patient.__eq__\<close>.\<close>

definition Patient_lt :: "patient \<Rightarrow> patient \<Rightarrow> py_error + bool" where
  "Patient_lt self other =
     bind_err (py_lt (age (base_of self)) (age (base_of other))) (\<lambda>less.
       if less then Inr True
       else if py_eq (age (base_of self)) (age (base_of other)) then
         bind_err (py_len (medical_history (base_of self))) (\<lambda>m.
         bind_err (py_len (medical_history (base_of other))) (\<lambda>n. Inr (m < n)))
       else Inr False)"

definition Patient_gt :: "patient \<Rightarrow> patient \<Rightarrow> py_error + bool" where
  "Patient_gt self other =
     bind_err (py_gt (age (base_of self)) (age (base_of other))) (\<lambda>greater.
       if greater then Inr True
       else if py_eq (age (base_of self)) (age (base_of other)) then
         bind_err (py_len (medical_history (base_of self))) (\<lambda>m.
         bind_err (py_len (medical_history (base_of other))) (\<lambda>n. Inr (m > n)))
       else Inr False)"

definition Patient_eq :: "patient \<Rightarrow> patient \<Rightarrow> py_error + bool" where
  "Patient_eq self other =
     (if py_eq (age (base_of self)) (age (base_of other)) then
        bind_err (py_len (medical_history (base_of self))) (\<lambda>m.
        bind_err (py_len (medical_history (base_of other))) (\<lambda>n. Inr (m = n)))
      else Inr False)"

subsection \<open>The factory\<close>

text \<open>
  \<open>PatientFactory.create_patient\<close> for a tag that is text; \<open>args\<close> and \<open>kwargs\<close> are
  the values bound to \<open>*args\<close> and \<open>**kwargs\<close>. A class object is true.
\<close>

definition create_patient :: "ustr \<Rightarrow> pyval list \<Rightarrow> pydict \<Rightarrow> py_error + patient" where
  "create_patient patient_type args kwargs =
     (case get_patient_class patient_type of
        Some patient_class \<Rightarrow> instantiate patient_class args kwargs
      | None \<Rightarrow> Inl (ValueError (unknown_type_prefix @ patient_type)))"

section \<open>Appointments\<close>

record DoctorInfo =
  name :: pyval
  specialty :: pyval
  contact_info :: pyval

record Service =
  name :: pyval
  price :: pyval

record Appointment =
  appointment_id :: pyval
  patient :: patient
  doctor :: pyval
  date :: pyval
  diagnosis :: pyval
  prescription :: pyval
  doctor_info :: DoctorInfo
  services :: "Service list"

text \<open>\<open>Appointment.__init__\<close>: the list of services starts empty.\<close>

definition Appointment_init ::
  "pyval \<Rightarrow> patient \<Rightarrow> pyval \<Rightarrow> pyval \<Rightarrow> pyval \<Rightarrow> pyval \<Rightarrow> DoctorInfo \<Rightarrow> Appointment" where
  "Appointment_init aid p doc dt diag presc info =
     \<lparr>appointment_id = aid, patient = p, doctor = doc, date = dt, diagnosis = diag,
      prescription = presc, doctor_info = info, services = []\<rparr>"

definition add_service :: "Appointment \<Rightarrow> Service \<Rightarrow> Appointment" where
  "add_service self service = self\<lparr>services := services self @ [service]\<rparr>"

definition Appointment_to_dict :: "Appointment \<Rightarrow> pydict" where
  "Appointment_to_dict self =
     [(u ''appointment_id'', appointment_id self),
      (u ''patient'', PDict (Patient_to_dict (patient self))),
      (u ''doctor'', doctor self),
      (u ''date'', date self),
      (u ''diagnosis'', diagnosis self),
      (u ''prescription'', prescription self),
      (u ''doctor_info'',
         PDict [(u ''name'', DoctorInfo.name (doctor_info self)),
                (u ''specialty'', specialty (doctor_info self)),
                (u ''contact_info'', contact_info (doctor_info self))]),
      (u ''services'',
         PList (map (\<lambda>s. PDict [(u ''name'', Service.name s), (u ''price'', price s)])
                  (services self)))]"

text \<open>
  The loop of \<open>Appointment.from_dict\<close> over the service records: one \<open>Service\<close> is
  built and added per record, in the order of the records.
\<close>

fun add_services :: "Appointment \<Rightarrow> pyval list \<Rightarrow> py_error + Appointment" where
  "add_services appointment [] = Inr appointment"
| "add_services appointment (service_data # records) =
     bind_err (subscript service_data (u ''name'')) (\<lambda>n.
     bind_err (subscript service_data (u ''price'')) (\<lambda>p.
       add_services (add_service appointment \<lparr>Service.name = n, price = p\<rparr>) records))"

text \<open>
  \<open>Appointment.from_dict\<close>, in the order in which the source evaluates: the nested
  patient (\<open>Patient.from_dict\<close> calls \<open>get\<close> on the value, which only a dict has),
  the doctor's data, the fields of the appointment, the services.
\<close>

definition Appointment_from_dict :: "pydict \<Rightarrow> py_error + Appointment" where
  "Appointment_from_dict data =
     bind_err (subscript (PDict data) (u ''patient'')) (\<lambda>patient_data.
     bind_err (case patient_data of PDict d \<Rightarrow> Patient_from_dict d | _ \<Rightarrow> Inl AttributeError)
       (\<lambda>patient.
     bind_err (subscript (PDict data) (u ''doctor_info'')) (\<lambda>info.
     bind_err (subscript info (u ''name'')) (\<lambda>info_name.
     bind_err (subscript (PDict data) (u ''doctor_info'')) (\<lambda>info.
     bind_err (subscript info (u ''specialty'')) (\<lambda>info_specialty.
     bind_err (subscript (PDict data) (u ''doctor_info'')) (\<lambda>info.
     bind_err (subscript info (u ''contact_info'')) (\<lambda>info_contact.
     bind_err (subscript (PDict data) (u ''appointment_id'')) (\<lambda>aid.
     bind_err (subscript (PDict data) (u ''doctor'')) (\<lambda>doc.
     bind_err (subscript (PDict data) (u ''date'')) (\<lambda>dt.
     bind_err (subscript (PDict data) (u ''diagnosis'')) (\<lambda>diag.
     bind_err (subscript (PDict data) (u ''prescription'')) (\<lambda>presc.
     bind_err (subscript (PDict data) (u ''services'')) (\<lambda>service_list.
     bind_err (iterate service_list) (\<lambda>records.
       add_services
         (Appointment_init aid patient doc dt diag presc
            \<lparr>DoctorInfo.name = info_name, specialty = info_specialty,
             contact_info = info_contact\<rparr>)
         records)))))))))))))))"

section \<open>The chain of handlers for a change of diagnosis\<close>

text \<open>
  A handler and its successor (\<open>None\<close> when it has none). A chain is a finite list of
  handlers; a chain that runs into itself is not modelled.
\<close>

datatype handler =
    Doctor "handler option"
  | DepartmentHead "handler option"
  | ChiefPhysician "handler option"

text \<open>
  The marker phrases of lines 464 ("minor change") and 476 ("treatment revision") and the
  messages the handlers print (lines 465, 468, 471 and 483, 477, 480, 488), in Cyrillic
  letters: the doctor approved, the doctor passed the request on, the change cannot be
  approved, the department head approved, the department head passed the request on,
  the chief physician approved.
\<close>

definition marker_doctor :: ustr where
  "marker_doctor =
     [1085, 1077, 1079, 1085, 1072, 1095, 1080, 1090, 1077, 1083, 1100, 1085, 1086,
      1077, 32, 1080, 1079, 1084, 1077, 1085, 1077, 1085, 1080, 1077]"

definition marker_head :: ustr where
  "marker_head =
     [1087, 1077, 1088, 1077, 1089, 1084, 1086, 1090, 1088, 32, 1083, 1077, 1095,
      1077, 1085, 1080, 1103]"

definition msg_doctor_approved :: ustr where
  "msg_doctor_approved =
     [1042, 1088, 1072, 1095, 32, 1086, 1076, 1086, 1073, 1088, 1080, 1083, 32,
      1080, 1079, 1084, 1077, 1085, 1077, 1085, 1080, 1077, 32, 1076, 1080, 1072,
      1075, 1085, 1086, 1079, 1072, 46]"

definition msg_doctor_forwarded :: ustr where
  "msg_doctor_forwarded =
     [1042, 1088, 1072, 1095, 32, 1087, 1077, 1088, 1077, 1076, 1072, 1083, 32,
      1079, 1072, 1087, 1088, 1086, 1089, 32, 1074, 1099, 1096, 1077, 32, 1087,
      1086, 32, 1094, 1077, 1087, 1086, 1095, 1082, 1077, 46]"

definition msg_not_approved :: ustr where
  "msg_not_approved =
     [1048, 1079, 1084, 1077, 1085, 1077, 1085, 1080, 1077, 32, 1076, 1080, 1072,
      1075, 1085, 1086, 1079, 1072, 32, 1085, 1077, 32, 1084, 1086, 1078, 1077,
      1090, 32, 1073, 1099, 1090, 1100, 32, 1086, 1076, 1086, 1073, 1088, 1077,
      1085, 1086, 46]"

definition msg_head_approved :: ustr where
  "msg_head_approved =
     [1047, 1072, 1074, 1077, 1076, 1091, 1102, 1097, 1080, 1081, 32, 1086, 1090,
      1076, 1077, 1083, 1077, 1085, 1080, 1077, 1084, 32, 1086, 1076, 1086, 1073,
      1088, 1080, 1083, 32, 1080, 1079, 1084, 1077, 1085, 1077, 1085, 1080, 1077,
      32, 1076, 1080, 1072, 1075, 1085, 1086, 1079, 1072, 46]"

definition msg_head_forwarded :: ustr where
  "msg_head_forwarded =
     [1047, 1072, 1074, 1077, 1076, 1091, 1102, 1097, 1080, 1081, 32, 1086, 1090,
      1076, 1077, 1083, 1077, 1085, 1080, 1077, 1084, 32, 1087, 1077, 1088, 1077,
      1076, 1072, 1083, 32, 1079, 1072, 1087, 1088, 1086, 1089, 32, 1074, 1099,
      1096, 1077, 32, 1087, 1086, 32, 1094, 1077, 1087, 1086, 1095, 1082, 1077, 46]"

definition msg_chief_approved :: ustr where
  "msg_chief_approved =
     [1043, 1083, 1072, 1074, 1085, 1099, 1081, 32, 1074, 1088, 1072, 1095, 32,
      1086, 1076, 1086, 1073, 1088, 1080, 1083, 32, 1080, 1079, 1084, 1077, 1085,
      1077, 1085, 1080, 1077, 32, 1076, 1080, 1072, 1075, 1085, 1086, 1079, 1072,
      46]"

text \<open>
  \<open>handle_request\<close> of the three classes, for a new diagnosis that is text. A handler
  object is true, so \<open>elif self._successor\<close> tests that there is a successor.
\<close>

fun handle_request ::
  "handler \<Rightarrow> ustr \<Rightarrow> Appointment \<times> console \<Rightarrow> Appointment \<times> console" where
  "handle_request (Doctor successor) new_diagnosis (appointment, out) =
     (if isin marker_doctor (lower new_diagnosis)
        then (appointment\<lparr>diagnosis := PStr new_diagnosis\<rparr>, out @ [msg_doctor_approved])
      else (case successor of
              Some next_handler \<Rightarrow>
                handle_request next_handler new_diagnosis
                  (appointment, out @ [msg_doctor_forwarded])
            | None \<Rightarrow> (appointment, out @ [msg_not_approved])))"
| "handle_request (DepartmentHead successor) new_diagnosis (appointment, out) =
     (if isin marker_head (lower new_diagnosis)
        then (appointment\<lparr>diagnosis := PStr new_diagnosis\<rparr>, out @ [msg_head_approved])
      else (case successor of
              Some next_handler \<Rightarrow>
                handle_request next_handler new_diagnosis
                  (appointment, out @ [msg_head_forwarded])
            | None \<Rightarrow> (appointment, out @ [msg_not_approved])))"
| "handle_request (ChiefPhysician successor) new_diagnosis (appointment, out) =
     (appointment\<lparr>diagnosis := PStr new_diagnosis\<rparr>, out @ [msg_chief_approved])"

subsection \<open>The permission check\<close>

text \<open>
  The text "one of the roles is required: " that starts the message of
  \<open>PermissionDeniedError\<close> (line 571) and the text "request to change the diagnosis
  to '" that \<open>change_diagnosis\<close> prints before the new diagnosis (line 588).
\<close>

definition permission_prefix :: ustr where
  "permission_prefix =
     [1058, 1088, 1077, 1073, 1091, 1077, 1090, 1089, 1103, 32, 1086, 1076, 1085,
      1072, 32, 1080, 1079, 32, 1088, 1086, 1083, 1077, 1081, 58, 32]"

definition request_prefix :: ustr where
  "request_prefix =
     [1047, 1072, 1087, 1088, 1086, 1089, 32, 1085, 1072, 32, 1080, 1079, 1084,
      1077, 1085, 1077, 1085, 1080, 1077, 32, 1076, 1080, 1072, 1075, 1085, 1086,
      1079, 1072, 32, 1085, 1072, 32, 39]"

text \<open>
  The decorator \<open>check_permissions\<close>: the wrapper takes the role first and calls the
  decorated function on the remaining arguments only if the role equals one of the
  required roles.
\<close>

definition check_permissions ::
  "ustr list \<Rightarrow> ('a \<Rightarrow> 's \<Rightarrow> (py_error + unit) \<times> 's) \<Rightarrow> pyval \<Rightarrow> 'a \<Rightarrow> 's \<Rightarrow>
     (py_error + unit) \<times> 's"
where
  "check_permissions required_roles func user_role args st =
     (if \<not> list_ex (\<lambda>r. py_eq user_role (PStr r)) required_roles
        then (Inl (PermissionDeniedError
                     (permission_prefix @ join (u '', '') required_roles)), st)
      else func args st)"

text \<open>
  The body of \<open>change_diagnosis\<close>, without the decorator. The state is the appointment
  the call refers to and the console; the arguments are the new diagnosis (text) and
  the first handler of the chain. The printed line ends with \<open>'...\<close>.
\<close>

definition request_suffix :: ustr where
  "request_suffix = [39, 46, 46, 46]"

definition change_diagnosis_body ::
  "ustr \<times> handler \<Rightarrow> Appointment \<times> console \<Rightarrow>
     (py_error + unit) \<times> Appointment \<times> console" where
  "change_diagnosis_body args st =
     (case args of (new_diagnosis, first_handler) \<Rightarrow>
        (case st of (appointment, out) \<Rightarrow>
           (Inr (),
            handle_request first_handler new_diagnosis
              (appointment, out @ [request_prefix @ new_diagnosis @ request_suffix]))))"

text \<open>\<open>change_diagnosis\<close> as decorated in line 580.\<close>

definition change_diagnosis ::
  "pyval \<Rightarrow> ustr \<times> handler \<Rightarrow> Appointment \<times> console \<Rightarrow>
     (py_error + unit) \<times> Appointment \<times> console" where
  "change_diagnosis =
     check_permissions [u ''Doctor'', u ''Department_head'', u ''Chief_physician'']
       change_diagnosis_body"

section \<open>Example objects\<close>

text \<open>
  An adult patient and an appointment in the manner of \<open>main\<close>, with the medical
  history left open; the gender is the first gender code.
\<close>

definition example_patient :: "pyval \<Rightarrow> patient" where
  "example_patient h =
     AdultPatient
       \<lparr>patient_id = PStr (u ''A123''), name = PStr (u ''Ivan Petrov''), age = PInt 35,
        gender = PStr [1084], medical_history = h\<rparr>
       (PStr (u ''programmer''))"

definition example_appointment :: "pyval \<Rightarrow> Appointment" where
  "example_appointment h =
     \<lparr>appointment_id = PStr (u ''AP101''), patient = example_patient h,
      doctor = PStr (u ''Doctor Ivanov''), date = PStr (u ''2023-10-15''),
      diagnosis = PStr (u ''flu''), prescription = PStr (u ''paracetamol''),
      doctor_info = \<lparr>DoctorInfo.name = PStr (u ''Doctor Ivanov''),
        specialty = PStr (u ''therapist''), contact_info = PStr (u ''ivanov@example.com'')\<rparr>,
      services = [\<lparr>Service.name = PStr (u ''consultation''), price = PInt 1500\<rparr>,
                  \<lparr>Service.name = PStr (u ''blood test''), price = PInt 700\<rparr>]\<rparr>"

text \<open>
  A new diagnosis as in \<open>main\<close>: "treatment revision" in Cyrillic letters, with a
  capital first letter.
\<close>

definition revision_text :: ustr where
  "revision_text =
     [1055, 1077, 1088, 1077, 1089, 1084, 1086, 1090, 1088, 32, 1083, 1077, 1095, 1077,
      1085, 1080, 1103]"

text \<open>A senior patient of the same age.\<close>

definition example_senior :: patient where
  "example_senior =
     SeniorPatient
       \<lparr>patient_id = PStr (u ''S789''), name = PStr (u ''Petr Ivanov''), age = PInt 35,
        gender = PStr [1078], medical_history = PStr (u ''hypertension'')\<rparr>
       (PStr (u ''diabetes''))"

text \<open>The record of the adult patient without its \<open>type\<close> entry.\<close>

definition record_without_type :: pydict where
  "record_without_type =
     [(u ''patient_id'', PStr (u ''A123'')), (u ''name'', PStr (u ''Ivan Petrov'')),
      (u ''age'', PInt 35), (u ''gender'', PStr [1084]),
      (u ''medical_history'', PStr (u ''pollen allergy'')),
      (u ''occupation'', PStr (u ''programmer''))]"

text \<open>
  A child patient in the manner of \<open>main\<close>, with the age and the medical history left
  open, and the record of that patient without its \<open>age\<close> entry.
\<close>

definition example_child :: "pyval \<Rightarrow> pyval \<Rightarrow> patient" where
  "example_child ag h =
     ChildPatient
       \<lparr>patient_id = PStr (u ''C456''), name = PStr (u ''Masha Sidorova''), age = ag,
        gender = PStr [1078], medical_history = h\<rparr>
       (PStr (u ''Anna Sidorova''))"

definition record_without_age :: "pyval \<Rightarrow> pydict" where
  "record_without_age h =
     [(u ''patient_id'', PStr (u ''C456'')), (u ''name'', PStr (u ''Masha Sidorova'')),
      (u ''gender'', PStr [1078]), (u ''medical_history'', h),
      (u ''type'', PStr (u ''childpatient'')),
      (u ''guardian'', PStr (u ''Anna Sidorova''))]"

section \<open>Properties\<close>

subsection \<open>Text literals and the registry\<close>

lemma u_eq_iff [simp]: "(u s = u t) = (s = t)"
  unfolding u_def by (simp add: inj_on_def)

lemma u_Nil [simp]: "u [] = []"
  by (simp add: u_def)

lemma lower_class_name:
  "lower (u ''AdultPatient'') = u ''adultpatient''"
  "lower (u ''ChildPatient'') = u ''childpatient''"
  "lower (u ''SeniorPatient'') = u ''seniorpatient''"
  "lower (u ''PatientWithNotifications'') = u ''patientwithnotifications''"
  by (simp_all add: lower_def lower_cp_def u_def)

lemma lower_cp_idem: "lower_cp (lower_cp c) = lower_cp c"
  by (simp add: lower_cp_def)

lemma lower_idem: "lower (lower s) = lower s"
  by (simp add: lower_def lower_cp_idem)

lemma lower_tag:
  "lower (u ''adultpatient'') = u ''adultpatient''"
  "lower (u ''childpatient'') = u ''childpatient''"
  "lower (u ''seniorpatient'') = u ''seniorpatient''"
  "lower (u ''patientwithnotifications'') = u ''patientwithnotifications''"
  by (simp_all add: lower_class_name [symmetric] lower_idem)

lemma registry_eq:
  "registry =
     [u ''adultpatient'' \<mapsto> AdultPatient_class,
      u ''childpatient'' \<mapsto> ChildPatient_class,
      u ''seniorpatient'' \<mapsto> SeniorPatient_class,
      u ''patientwithnotifications'' \<mapsto> PatientWithNotifications_class]"
  by (simp add: registry_def PatientMeta_new_def lower_class_name)

lemma get_patient_class_eq:
  "get_patient_class t =
     (if lower t = u ''patientwithnotifications'' then Some PatientWithNotifications_class
      else if lower t = u ''seniorpatient'' then Some SeniorPatient_class
      else if lower t = u ''childpatient'' then Some ChildPatient_class
      else if lower t = u ''adultpatient'' then Some AdultPatient_class
      else None)"
  by (simp add: get_patient_class_def registry_eq)

lemma get_patient_class_tag:
  "get_patient_class (u ''adultpatient'') = Some AdultPatient_class"
  "get_patient_class (u ''childpatient'') = Some ChildPatient_class"
  "get_patient_class (u ''seniorpatient'') = Some SeniorPatient_class"
  "get_patient_class (u ''patientwithnotifications'') = Some PatientWithNotifications_class"
  by (simp_all add: get_patient_class_eq lower_tag)

subsection \<open>C1: round trip of a patient through its record\<close>

text \<open>
  \<open>to_dict\<close> writes the empty text for a medical history that is false as a truth value
  (\<open>None\<close>, the empty text, an empty list, ...), and \<open>from_dict\<close> hands every value of
  the record to the constructor. So the round trip returns the patient with every field
  as it was, except that a false medical history comes back as the empty text.
\<close>

lemma Patient_roundtrip_general:
  "Patient_from_dict (Patient_to_dict p) =
     Inr (with_base (\<lambda>b. b\<lparr>medical_history :=
            if truthy (medical_history b) then medical_history b else PStr []\<rparr>) p)"
  by (cases p)
     (simp_all add: Patient_from_dict_def Patient_to_dict_def dict_get_def get_patient_class_tag
        lower_class_name bind_args_def Patient_params_def Patient_init_def)

text \<open>
  Claim C1, as amended: for every patient (of any class) whose medical history is not
  empty or is the empty text, \<open>Patient.from_dict(p.to_dict())\<close> succeeds and yields a
  patient equal to \<open>p\<close> in its class and in every field, the subclass's own field
  included.
\<close>

theorem C1_patient_roundtrip:
  assumes "truthy (medical_history (base_of p)) \<or> medical_history (base_of p) = PStr []"
  shows "Patient_from_dict (Patient_to_dict p) = Inr p"
  using assms by (cases p) (auto simp add: Patient_roundtrip_general)

theorem C1_patient_roundtrip_witness:
  "(truthy (medical_history (base_of (example_patient (PStr (u ''pollen allergy''))))) \<or>
    medical_history (base_of (example_patient (PStr (u ''pollen allergy'')))) = PStr []) \<and>
   Patient_from_dict (Patient_to_dict (example_patient (PStr (u ''pollen allergy'')))) =
     Inr (example_patient (PStr (u ''pollen allergy'')))"
proof -
  have h:
    "truthy (medical_history (base_of (example_patient (PStr (u ''pollen allergy''))))) \<or>
     medical_history (base_of (example_patient (PStr (u ''pollen allergy'')))) = PStr []"
    by (simp add: example_patient_def u_def)
  from C1_patient_roundtrip [OF h] h show ?thesis by simp
qed

text \<open>
  The claim as stated fails for a patient whose medical history is \<open>None\<close>: the round
  trip yields the empty text in that field.
\<close>

theorem C1_patient_roundtrip_counterexample:
  "Patient_from_dict (Patient_to_dict (example_patient PNone)) = Inr (example_patient (PStr []))
   \<and> medical_history (base_of (example_patient (PStr []))) \<noteq>
       medical_history (base_of (example_patient PNone))"
  by (simp add: Patient_roundtrip_general example_patient_def)

subsection \<open>C2: the department head approves a treatment revision\<close>

text \<open>Every call of a handler prints at least one line.\<close>

lemma handle_request_prints:
  "\<exists>ls. ls \<noteq> [] \<and> snd (handle_request h t (a, out)) = out @ ls"
proof (induction h arbitrary: out)
  case (Doctor successor)
  show ?case
  proof (cases successor)
    case None
    then show ?thesis by simp
  next
    case (Some next_handler)
    from Doctor [of next_handler "out @ [msg_doctor_forwarded]"] Some
    obtain ls where "snd (handle_request next_handler t (a, out @ [msg_doctor_forwarded])) =
        out @ msg_doctor_forwarded # ls"
      by auto
    with Some show ?thesis by simp
  qed
next
  case (DepartmentHead successor)
  show ?case
  proof (cases successor)
    case None
    then show ?thesis by simp
  next
    case (Some next_handler)
    from DepartmentHead [of next_handler "out @ [msg_head_forwarded]"] Some
    obtain ls where "snd (handle_request next_handler t (a, out @ [msg_head_forwarded])) =
        out @ msg_head_forwarded # ls"
      by auto
    with Some show ?thesis by simp
  qed
next
  case (ChiefPhysician successor)
  show ?case by simp
qed

lemma lower_revision_text: "lower revision_text = marker_head"
  by (simp add: revision_text_def marker_head_def lower_def lower_cp_def)

lemma isin_self: "isin s s"
  by (cases s) simp_all

lemma not_isin_longer: "length hay < length needle \<Longrightarrow> \<not> isin needle hay"
  by (induction hay) (auto dest: prefix_length_le)

text \<open>
  Claim C2: in a chain doctor, department head, chief physician, a new diagnosis whose
  lowercased text contains the department head's marker phrase and not the doctor's is
  passed on by the doctor and approved by the department head: the console receives the
  doctor's "passed on" line and the department head's "approved" line (neither the
  doctor's nor the chief physician's "approved" line), and the diagnosis of the
  appointment becomes exactly the submitted text.
\<close>

theorem C2_department_approves:
  assumes "isin marker_head (lower t)" and "\<not> isin marker_doctor (lower t)"
  shows "handle_request (Doctor (Some (DepartmentHead (Some (ChiefPhysician s))))) t (a, out) =
           (a\<lparr>diagnosis := PStr t\<rparr>, out @ [msg_doctor_forwarded, msg_head_approved])
         \<and> msg_doctor_approved \<notin> set [msg_doctor_forwarded, msg_head_approved]
         \<and> msg_chief_approved \<notin> set [msg_doctor_forwarded, msg_head_approved]"
  using assms
  by (simp add: msg_doctor_forwarded_def msg_head_approved_def msg_doctor_approved_def
        msg_chief_approved_def)

theorem C2_department_approves_witness:
  "isin marker_head (lower revision_text) \<and> \<not> isin marker_doctor (lower revision_text) \<and>
   handle_request (Doctor (Some (DepartmentHead (Some (ChiefPhysician None))))) revision_text
       (example_appointment (PStr (u ''pollen allergy'')), []) =
     ((example_appointment (PStr (u ''pollen allergy'')))\<lparr>diagnosis := PStr revision_text\<rparr>,
      [msg_doctor_forwarded, msg_head_approved])"
proof -
  have h1: "isin marker_head (lower revision_text)"
    by (simp add: lower_revision_text isin_self)
  have h2: "\<not> isin marker_doctor (lower revision_text)"
    by (rule not_isin_longer) (simp add: lower_revision_text marker_head_def marker_doctor_def)
  from C2_department_approves
      [OF h1 h2, of None "example_appointment (PStr (u ''pollen allergy''))" "[]"] h1 h2
  show ?thesis by simp
qed

subsection \<open>C3: a role that is not recognized\<close>

lemma py_eq_PStr [simp]: "py_eq (PStr r) (PStr s) = (r = s)"
  by auto

text \<open>
  Claim C3: for every role text other than \<open>Doctor\<close>, \<open>Department_head\<close> and
  \<open>Chief_physician\<close> (compared as they are written), \<open>change_diagnosis\<close> raises
  \<open>PermissionDeniedError\<close> and leaves the appointment and the console as they were. No
  handler ran: a call of any handler would have added a line to the console.
\<close>

theorem C3_permission_denied:
  assumes "r \<notin> {u ''Doctor'', u ''Department_head'', u ''Chief_physician''}"
  shows "change_diagnosis (PStr r) (t, h) (a, out) =
           (Inl (PermissionDeniedError
                   (permission_prefix @ u ''Doctor, Department_head, Chief_physician'')),
            a, out)
         \<and> (\<forall>h' t' a'. snd (handle_request h' t' (a', out)) \<noteq> out)"
proof -
  have "snd (handle_request h' t' (a', out)) \<noteq> out" for h' t' a'
    using handle_request_prints [of h' t' a' out] by auto
  with assms show ?thesis
    by (auto simp add: change_diagnosis_def check_permissions_def u_def)
qed

theorem C3_permission_denied_witness:
  "u ''user'' \<notin> {u ''Doctor'', u ''Department_head'', u ''Chief_physician''} \<and>
   change_diagnosis (PStr (u ''user''))
       (revision_text, Doctor (Some (DepartmentHead (Some (ChiefPhysician None)))))
       (example_appointment (PStr (u ''pollen allergy'')), []) =
     (Inl (PermissionDeniedError
             (permission_prefix @ u ''Doctor, Department_head, Chief_physician'')),
      example_appointment (PStr (u ''pollen allergy'')), [])"
proof -
  have h: "u ''user'' \<notin> {u ''Doctor'', u ''Department_head'', u ''Chief_physician''}"
    by simp
  from C3_permission_denied [OF h] h show ?thesis by simp
qed

subsection \<open>C4: comparison of patients\<close>

text \<open>The comparisons of values and \<open>len\<close> raise no exception but \<open>TypeError\<close>.\<close>

lemma py_len_error: "py_len v = Inl e \<Longrightarrow> e = TypeError"
  by (cases v) simp_all

lemma list_items_lt_error:
  assumes "\<And>x y e. x \<in> set xs \<Longrightarrow> py_lt x y = Inl e \<Longrightarrow> e = TypeError"
  shows "list_items_lt (zip (map py_eq xs) (map py_lt xs)) ys = Inl e \<Longrightarrow> e = TypeError"
  using assms
proof (induction xs arbitrary: ys)
  case Nil
  then show ?case by simp
next
  case (Cons x xs)
  show ?case
  proof (cases ys)
    case Nil
    with Cons.prems show ?thesis by simp
  next
    case (Cons y ys')
    show ?thesis
    proof (cases "py_eq x y")
      case True
      with Cons.prems(1) Cons have "list_items_lt (zip (map py_eq xs) (map py_lt xs)) ys' = Inl e"
        by simp
      then show ?thesis using Cons.IH Cons.prems(2) by auto
    next
      case False
      with Cons.prems(1) Cons have "py_lt x y = Inl e" by simp
      then show ?thesis using Cons.prems(2) by auto
    qed
  qed
qed

lemma py_lt_error: "py_lt v w = Inl e \<Longrightarrow> e = TypeError"
proof (induction v arbitrary: w e)
  case (PList xs)
  then show ?case
    by (cases w) (auto dest: list_items_lt_error [rotated])
qed (auto split: pyval.splits)

text \<open>The three comparison methods, with the sequencing written out.\<close>

lemma Patient_eq_cases:
  "Patient_eq a b =
     (if py_eq (age (base_of a)) (age (base_of b)) then
        (case py_len (medical_history (base_of a)) of
           Inl e \<Rightarrow> Inl e
         | Inr m \<Rightarrow> (case py_len (medical_history (base_of b)) of
                      Inl e \<Rightarrow> Inl e | Inr n \<Rightarrow> Inr (m = n)))
      else Inr False)"
  by (simp add: Patient_eq_def bind_err_def split: sum.splits)

lemma Patient_lt_cases:
  "Patient_lt a b =
     (case py_lt (age (base_of a)) (age (base_of b)) of
        Inl e \<Rightarrow> Inl e
      | Inr l \<Rightarrow>
          if l then Inr True
          else if py_eq (age (base_of a)) (age (base_of b)) then
            (case py_len (medical_history (base_of a)) of
               Inl e \<Rightarrow> Inl e
             | Inr m \<Rightarrow> (case py_len (medical_history (base_of b)) of
                          Inl e \<Rightarrow> Inl e | Inr n \<Rightarrow> Inr (m < n)))
          else Inr False)"
  by (simp add: Patient_lt_def bind_err_def split: sum.splits)

lemma Patient_gt_cases:
  "Patient_gt a b =
     (case py_lt (age (base_of b)) (age (base_of a)) of
        Inl e \<Rightarrow> Inl e
      | Inr g \<Rightarrow>
          if g then Inr True
          else if py_eq (age (base_of a)) (age (base_of b)) then
            (case py_len (medical_history (base_of a)) of
               Inl e \<Rightarrow> Inl e
             | Inr m \<Rightarrow> (case py_len (medical_history (base_of b)) of
                          Inl e \<Rightarrow> Inl e | Inr n \<Rightarrow> Inr (n < m)))
          else Inr False)"
  by (simp add: Patient_gt_def py_gt_def bind_err_def split: sum.splits)

text \<open>
  Claim C4, as amended: for every two patients \<open>a\<close> and \<open>b\<close> of any classes,
  \<^item> \<open>a == b\<close> is true iff the ages are equal and both medical histories have a length
    and the lengths are equal; it is false iff the ages are unequal, or both histories
    have a length and the lengths differ;
  \<^item> \<open>a < b\<close> is true iff \<open>a.age < b.age\<close> is true, or \<open>a.age < b.age\<close> is false, the
    ages are equal and both histories have a length with that of \<open>a\<close> smaller; it is
    false iff \<open>a.age < b.age\<close> is false and the ages are unequal or both histories
    have a length with that of \<open>a\<close> not smaller;
  \<^item> \<open>a > b\<close> symmetrically, with \<open>b.age < a.age\<close> for \<open>a.age > b.age\<close>;
  \<^item> in every other case (ages that cannot be ordered, or equal ages and a history
    without a length) the comparison raises \<open>TypeError\<close>;
  \<^item> for ages that are integers and histories that have a length the three results are
    as the claim states them.
  No other field and no class enters the result.
\<close>

theorem C4_patient_ordering:
  "(Patient_eq a b = Inr True \<longleftrightarrow>
      py_eq (age (base_of a)) (age (base_of b)) \<and>
      (\<exists>n. py_len (medical_history (base_of a)) = Inr n \<and>
           py_len (medical_history (base_of b)) = Inr n))
   \<and> (Patient_eq a b = Inr False \<longleftrightarrow>
      \<not> py_eq (age (base_of a)) (age (base_of b)) \<or>
      (\<exists>m n. py_len (medical_history (base_of a)) = Inr m \<and>
             py_len (medical_history (base_of b)) = Inr n \<and> m \<noteq> n))
   \<and> (Patient_lt a b = Inr True \<longleftrightarrow>
      py_lt (age (base_of a)) (age (base_of b)) = Inr True \<or>
      (py_lt (age (base_of a)) (age (base_of b)) = Inr False \<and>
       py_eq (age (base_of a)) (age (base_of b)) \<and>
       (\<exists>m n. py_len (medical_history (base_of a)) = Inr m \<and>
              py_len (medical_history (base_of b)) = Inr n \<and> m < n)))
   \<and> (Patient_lt a b = Inr False \<longleftrightarrow>
      py_lt (age (base_of a)) (age (base_of b)) = Inr False \<and>
      (\<not> py_eq (age (base_of a)) (age (base_of b)) \<or>
       (\<exists>m n. py_len (medical_history (base_of a)) = Inr m \<and>
              py_len (medical_history (base_of b)) = Inr n \<and> \<not> m < n)))
   \<and> (Patient_gt a b = Inr True \<longleftrightarrow>
      py_lt (age (base_of b)) (age (base_of a)) = Inr True \<or>
      (py_lt (age (base_of b)) (age (base_of a)) = Inr False \<and>
       py_eq (age (base_of a)) (age (base_of b)) \<and>
       (\<exists>m n. py_len (medical_history (base_of a)) = Inr m \<and>
              py_len (medical_history (base_of b)) = Inr n \<and> n < m)))
   \<and> (Patient_gt a b = Inr False \<longleftrightarrow>
      py_lt (age (base_of b)) (age (base_of a)) = Inr False \<and>
      (\<not> py_eq (age (base_of a)) (age (base_of b)) \<or>
       (\<exists>m n. py_len (medical_history (base_of a)) = Inr m \<and>
              py_len (medical_history (base_of b)) = Inr n \<and> \<not> n < m)))
   \<and> Patient_eq a b \<in> {Inr True, Inr False, Inl TypeError}
   \<and> Patient_lt a b \<in> {Inr True, Inr False, Inl TypeError}
   \<and> Patient_gt a b \<in> {Inr True, Inr False, Inl TypeError}
   \<and> (age (base_of a) = PInt x \<and> age (base_of b) = PInt y \<and>
       py_len (medical_history (base_of a)) = Inr k \<and>
       py_len (medical_history (base_of b)) = Inr l \<longrightarrow>
         Patient_eq a b = Inr (x = y \<and> k = l) \<and>
         Patient_lt a b = Inr (x < y \<or> (x = y \<and> k < l)) \<and>
         Patient_gt a b = Inr (y < x \<or> (x = y \<and> l < k)))"
proof -
  have eqT: "Patient_eq a b = Inr True \<longleftrightarrow>
      py_eq (age (base_of a)) (age (base_of b)) \<and>
      (\<exists>n. py_len (medical_history (base_of a)) = Inr n \<and>
           py_len (medical_history (base_of b)) = Inr n)"
    by (auto simp add: Patient_eq_cases split: sum.splits)
  have eqF: "Patient_eq a b = Inr False \<longleftrightarrow>
      \<not> py_eq (age (base_of a)) (age (base_of b)) \<or>
      (\<exists>m n. py_len (medical_history (base_of a)) = Inr m \<and>
             py_len (medical_history (base_of b)) = Inr n \<and> m \<noteq> n)"
    by (auto simp add: Patient_eq_cases split: sum.splits)
  have ltT: "Patient_lt a b = Inr True \<longleftrightarrow>
      py_lt (age (base_of a)) (age (base_of b)) = Inr True \<or>
      (py_lt (age (base_of a)) (age (base_of b)) = Inr False \<and>
       py_eq (age (base_of a)) (age (base_of b)) \<and>
       (\<exists>m n. py_len (medical_history (base_of a)) = Inr m \<and>
              py_len (medical_history (base_of b)) = Inr n \<and> m < n))"
    by (auto simp add: Patient_lt_cases split: sum.splits)
  have ltF: "Patient_lt a b = Inr False \<longleftrightarrow>
      py_lt (age (base_of a)) (age (base_of b)) = Inr False \<and>
      (\<not> py_eq (age (base_of a)) (age (base_of b)) \<or>
       (\<exists>m n. py_len (medical_history (base_of a)) = Inr m \<and>
              py_len (medical_history (base_of b)) = Inr n \<and> \<not> m < n))"
    by (auto simp add: Patient_lt_cases split: sum.splits)
  have gtT: "Patient_gt a b = Inr True \<longleftrightarrow>
      py_lt (age (base_of b)) (age (base_of a)) = Inr True \<or>
      (py_lt (age (base_of b)) (age (base_of a)) = Inr False \<and>
       py_eq (age (base_of a)) (age (base_of b)) \<and>
       (\<exists>m n. py_len (medical_history (base_of a)) = Inr m \<and>
              py_len (medical_history (base_of b)) = Inr n \<and> n < m))"
    by (auto simp add: Patient_gt_cases split: sum.splits)
  have gtF: "Patient_gt a b = Inr False \<longleftrightarrow>
      py_lt (age (base_of b)) (age (base_of a)) = Inr False \<and>
      (\<not> py_eq (age (base_of a)) (age (base_of b)) \<or>
       (\<exists>m n. py_len (medical_history (base_of a)) = Inr m \<and>
              py_len (medical_history (base_of b)) = Inr n \<and> \<not> n < m))"
    by (auto simp add: Patient_gt_cases split: sum.splits)
  have eqR: "Patient_eq a b \<in> {Inr True, Inr False, Inl TypeError}"
    by (auto simp add: Patient_eq_cases split: sum.splits dest: py_len_error)
  have ltR: "Patient_lt a b \<in> {Inr True, Inr False, Inl TypeError}"
    by (auto simp add: Patient_lt_cases split: sum.splits dest: py_len_error py_lt_error)
  have gtR: "Patient_gt a b \<in> {Inr True, Inr False, Inl TypeError}"
    by (auto simp add: Patient_gt_cases split: sum.splits dest: py_len_error py_lt_error)
  have ints: "age (base_of a) = PInt x \<and> age (base_of b) = PInt y \<and>
       py_len (medical_history (base_of a)) = Inr k \<and>
       py_len (medical_history (base_of b)) = Inr l \<longrightarrow>
         Patient_eq a b = Inr (x = y \<and> k = l) \<and>
         Patient_lt a b = Inr (x < y \<or> (x = y \<and> k < l)) \<and>
         Patient_gt a b = Inr (y < x \<or> (x = y \<and> l < k))"
    by (auto simp add: Patient_eq_cases Patient_lt_cases Patient_gt_cases)
  from eqT eqF ltT ltF gtT gtF eqR ltR gtR ints show ?thesis
    by (intro conjI)
qed

theorem C4_patient_ordering_witness:
  "age (base_of (example_patient (PStr (u ''flu'')))) = PInt 35 \<and>
   age (base_of example_senior) = PInt 35 \<and>
   py_len (medical_history (base_of (example_patient (PStr (u ''flu''))))) = Inr 3 \<and>
   py_len (medical_history (base_of example_senior)) = Inr 12 \<and>
   Patient_eq (example_patient (PStr (u ''flu''))) example_senior = Inr False \<and>
   Patient_lt (example_patient (PStr (u ''flu''))) example_senior = Inr True \<and>
   Patient_gt (example_patient (PStr (u ''flu''))) example_senior = Inr False \<and>
   py_eq (age (base_of (example_patient (PStr (u ''otitis media'')))))
     (age (base_of example_senior)) \<and>
   py_len (medical_history (base_of (example_patient (PStr (u ''otitis media''))))) = Inr 12 \<and>
   Patient_eq (example_patient (PStr (u ''otitis media''))) example_senior = Inr True \<and>
   py_lt (age (base_of (example_child (PInt 8) PNone)))
     (age (base_of (example_patient PNone))) = Inr True \<and>
   Patient_lt (example_child (PInt 8) PNone) (example_patient PNone) = Inr True"
proof -
  have i: "age (base_of (example_patient (PStr (u ''flu'')))) = PInt 35"
    "age (base_of example_senior) = PInt 35"
    "py_len (medical_history (base_of (example_patient (PStr (u ''flu''))))) = Inr 3"
    "py_len (medical_history (base_of example_senior)) = Inr 12"
    by (simp_all add: example_patient_def example_senior_def u_def)
  have e: "py_eq (age (base_of (example_patient (PStr (u ''otitis media'')))))
      (age (base_of example_senior))"
    "py_len (medical_history (base_of (example_patient (PStr (u ''otitis media''))))) = Inr 12"
    by (simp_all add: example_patient_def example_senior_def u_def)
  have l: "py_lt (age (base_of (example_child (PInt 8) PNone)))
      (age (base_of (example_patient PNone))) = Inr True"
    by (simp add: example_patient_def example_child_def)
  note t1 = C4_patient_ordering
    [where a = "example_patient (PStr (u ''flu''))" and b = example_senior
       and x = 35 and y = 35 and k = 3 and l = 12]
  note t2 = C4_patient_ordering
    [where a = "example_patient (PStr (u ''otitis media''))" and b = example_senior]
  note t3 = C4_patient_ordering
    [where a = "example_child (PInt 8) PNone" and b = "example_patient PNone"]
  note ints = t1 [THEN conjunct2, THEN conjunct2, THEN conjunct2, THEN conjunct2,
    THEN conjunct2, THEN conjunct2, THEN conjunct2, THEN conjunct2, THEN conjunct2, rule_format]
  from i have "age (base_of (example_patient (PStr (u ''flu'')))) = PInt 35 \<and>
      age (base_of example_senior) = PInt 35 \<and>
      py_len (medical_history (base_of (example_patient (PStr (u ''flu''))))) = Inr 3 \<and>
      py_len (medical_history (base_of example_senior)) = Inr 12"
    by (intro conjI)
  from ints [OF this]
  have 1: "Patient_eq (example_patient (PStr (u ''flu''))) example_senior = Inr False"
    "Patient_lt (example_patient (PStr (u ''flu''))) example_senior = Inr True"
    "Patient_gt (example_patient (PStr (u ''flu''))) example_senior = Inr False"
    by simp_all
  from t2 [THEN conjunct1] e i(4)
  have 2: "Patient_eq (example_patient (PStr (u ''otitis media''))) example_senior = Inr True"
    by blast
  from t3 [THEN conjunct2, THEN conjunct2, THEN conjunct1] l
  have 3: "Patient_lt (example_child (PInt 8) PNone) (example_patient PNone) = Inr True"
    by blast
  from i e l 1 2 3 show ?thesis by (intro conjI)
qed

text \<open>
  The claim as stated fails for two patients read from records without \<open>age\<close>: their
  ages are equal (\<open>None\<close>) and the first history is shorter, so \<open>a < b\<close> should hold,
  but \<open>None < None\<close> raises \<open>TypeError\<close>; the same for \<open>b > a\<close>.
\<close>

theorem C4_patient_ordering_counterexample:
  "Patient_from_dict (record_without_age (PStr (u ''a''))) =
     Inr (example_child PNone (PStr (u ''a'')))
   \<and> Patient_from_dict (record_without_age (PStr (u ''cd''))) =
     Inr (example_child PNone (PStr (u ''cd'')))
   \<and> py_eq (age (base_of (example_child PNone (PStr (u ''a'')))))
        (age (base_of (example_child PNone (PStr (u ''cd'')))))
   \<and> py_len (medical_history (base_of (example_child PNone (PStr (u ''a''))))) = Inr 1
   \<and> py_len (medical_history (base_of (example_child PNone (PStr (u ''cd''))))) = Inr 2
   \<and> Patient_lt (example_child PNone (PStr (u ''a''))) (example_child PNone (PStr (u ''cd''))) =
       Inl TypeError
   \<and> Patient_gt (example_child PNone (PStr (u ''cd''))) (example_child PNone (PStr (u ''a''))) =
       Inl TypeError"
proof -
  have r: "Patient_from_dict (record_without_age h) = Inr (example_child PNone h)" for h
    by (simp add: Patient_from_dict_def record_without_age_def example_child_def dict_get_def
          get_patient_class_tag bind_args_def Patient_params_def Patient_init_def)
  have c: "py_eq (age (base_of (example_child PNone (PStr (u ''a'')))))
        (age (base_of (example_child PNone (PStr (u ''cd'')))))"
    "py_len (medical_history (base_of (example_child PNone (PStr (u ''a''))))) = Inr 1"
    "py_len (medical_history (base_of (example_child PNone (PStr (u ''cd''))))) = Inr 2"
    "Patient_lt (example_child PNone (PStr (u ''a''))) (example_child PNone (PStr (u ''cd''))) =
       Inl TypeError"
    "Patient_gt (example_child PNone (PStr (u ''cd''))) (example_child PNone (PStr (u ''a''))) =
       Inl TypeError"
    by (simp_all add: example_child_def u_def Patient_lt_def Patient_gt_def py_gt_def
          bind_err_def)
  from r c show ?thesis by (intro conjI)
qed

subsection \<open>C5: the setter of the age\<close>

text \<open>
  Claim C5: for every patient and every integer \<open>v\<close>, the setter of \<open>age\<close> returns
  without an exception; it stores \<open>v\<close> when \<open>1 < v < 110\<close>, and otherwise leaves the
  patient as it was and prints a line.
\<close>

theorem C5_age_setter:
  "set_age (PInt v) (p, out) =
     (Inr (),
      if 1 < v \<and> v < 110 then with_base (\<lambda>b. b\<lparr>age := PInt v\<rparr>) p else p,
      if 1 < v \<and> v < 110 then out else out @ [msg_invalid_age])
   \<and> age (base_of (fst (snd (set_age (PInt v) (p, out))))) =
       (if 1 < v \<and> v < 110 then PInt v else age (base_of p))"
  by (cases p) (simp_all add: set_age_def bind_err_def)

subsection \<open>C6: the factory resolves the tag without regard to case\<close>

lemma lower_upper_tag: "lower (u ''ADULTPATIENT'') = u ''adultpatient''"
  by (simp add: lower_def lower_cp_def u_def)

lemma create_patient_adult_kw:
  "get_patient_class t = Some AdultPatient_class \<Longrightarrow>
   create_patient t [pid, nm, ag, gd, mh] [(u ''occupation'', occ)] =
     Inr (AdultPatient
            \<lparr>patient_id = pid, name = nm, age = ag, gender = gd, medical_history = mh\<rparr> occ)"
  by (simp add: create_patient_def bind_args_def Patient_params_def Patient_init_def)

text \<open>
  Claim C6: \<open>create_patient\<close> looks the tag up by its lowercased text, so two tags that
  differ in case only resolve to the same class and, when that class exists, give the
  same result; \<open>ADULTPATIENT\<close> behaves as \<open>adultpatient\<close> and creates an adult patient;
  a tag that resolves to no class raises \<open>ValueError\<close> with a message that ends with the
  tag as it was passed.
\<close>

theorem C6_factory_tag:
  "(lower t1 = lower t2 \<longrightarrow> get_patient_class t1 = get_patient_class t2)
   \<and> (lower t1 = lower t2 \<and> get_patient_class t1 \<noteq> None \<longrightarrow>
        create_patient t1 args kwargs = create_patient t2 args kwargs)
   \<and> create_patient (u ''ADULTPATIENT'') args kwargs =
       create_patient (u ''adultpatient'') args kwargs
   \<and> create_patient (u ''ADULTPATIENT'') [pid, nm, ag, gd, mh] [(u ''occupation'', occ)] =
       Inr (AdultPatient
              \<lparr>patient_id = pid, name = nm, age = ag, gender = gd, medical_history = mh\<rparr> occ)
   \<and> (get_patient_class tag = None \<longrightarrow>
        create_patient tag args kwargs = Inl (ValueError (unknown_type_prefix @ tag)))"
proof -
  have cls: "get_patient_class (u ''ADULTPATIENT'') = Some AdultPatient_class"
    by (simp add: get_patient_class_eq lower_upper_tag)
  have a: "lower t1 = lower t2 \<longrightarrow> get_patient_class t1 = get_patient_class t2"
    by (simp add: get_patient_class_def)
  have b: "lower t1 = lower t2 \<and> get_patient_class t1 \<noteq> None \<longrightarrow>
        create_patient t1 args kwargs = create_patient t2 args kwargs"
    by (auto simp add: create_patient_def get_patient_class_def)
  have c: "create_patient (u ''ADULTPATIENT'') args kwargs =
       create_patient (u ''adultpatient'') args kwargs"
    by (simp add: create_patient_def cls get_patient_class_tag)
  have d: "create_patient (u ''ADULTPATIENT'') [pid, nm, ag, gd, mh] [(u ''occupation'', occ)] =
       Inr (AdultPatient
              \<lparr>patient_id = pid, name = nm, age = ag, gender = gd, medical_history = mh\<rparr> occ)"
    by (rule create_patient_adult_kw [OF cls])
  have e: "get_patient_class tag = None \<longrightarrow>
        create_patient tag args kwargs = Inl (ValueError (unknown_type_prefix @ tag))"
    by (simp add: create_patient_def)
  from a b c d e show ?thesis by blast
qed

theorem C6_factory_tag_witness:
  "lower (u ''AdultPatient'') = lower (u ''ADULTPATIENT'') \<and>
   get_patient_class (u ''AdultPatient'') \<noteq> None \<and>
   get_patient_class (u ''AdultPatient'') = get_patient_class (u ''ADULTPATIENT'') \<and>
   create_patient (u ''AdultPatient'') [] [] = create_patient (u ''ADULTPATIENT'') [] [] \<and>
   get_patient_class (u ''unknown'') = None \<and>
   create_patient (u ''unknown'') [PStr (u ''X999'')] [] =
     Inl (ValueError (unknown_type_prefix @ u ''unknown''))"
proof -
  have l: "lower (u ''AdultPatient'') = lower (u ''ADULTPATIENT'')"
    by (simp add: lower_class_name lower_upper_tag)
  have c: "get_patient_class (u ''AdultPatient'') \<noteq> None"
    by (simp add: get_patient_class_eq lower_class_name)
  have n: "get_patient_class (u ''unknown'') = None"
    by (simp add: get_patient_class_eq lower_def lower_cp_def u_def)
  note th =
    C6_factory_tag
      [of "u ''AdultPatient''" "u ''ADULTPATIENT''" "[]" "[]" _ _ _ _ _ _ "u ''unknown''"]
  note th2 = C6_factory_tag [of _ _ "[PStr (u ''X999'')]" "[]" _ _ _ _ _ _ "u ''unknown''"]
  from th l
  have 1: "get_patient_class (u ''AdultPatient'') = get_patient_class (u ''ADULTPATIENT'')"
    by blast
  from th l c
  have 2: "create_patient (u ''AdultPatient'') [] [] = create_patient (u ''ADULTPATIENT'') [] []"
    by blast
  from th2 n have 3: "create_patient (u ''unknown'') [PStr (u ''X999'')] [] =
     Inl (ValueError (unknown_type_prefix @ u ''unknown''))"
    by blast
  from l c n 1 2 3 show ?thesis by blast
qed

subsection \<open>C7: records without a type, with an unknown type, without the own field\<close>

text \<open>
  A record whose \<open>type\<close> is text that resolves to no class raises \<open>ValueError\<close> with
  the type in the message, and a record of a known type that lacks the key of the
  subclass's own field yields the empty text in that field.
\<close>

lemma from_dict_type_unknown:
  "map_of data (u ''type'') = Some (PStr t) \<Longrightarrow> get_patient_class t = None \<Longrightarrow>
   Patient_from_dict data = Inl (ValueError (unknown_type_prefix @ t))"
  by (simp add: Patient_from_dict_def dict_get_def)

lemma from_dict_own_field_absent:
  "Patient_from_dict [(u ''type'', PStr (u ''adultpatient''))] =
     Inr (AdultPatient \<lparr>patient_id = PNone, name = PNone, age = PNone, gender = PNone,
            medical_history = PStr []\<rparr> (PStr []))"
  "Patient_from_dict [(u ''type'', PStr (u ''childpatient''))] =
     Inr (ChildPatient \<lparr>patient_id = PNone, name = PNone, age = PNone, gender = PNone,
            medical_history = PStr []\<rparr> (PStr []))"
  "Patient_from_dict [(u ''type'', PStr (u ''seniorpatient''))] =
     Inr (SeniorPatient \<lparr>patient_id = PNone, name = PNone, age = PNone, gender = PNone,
            medical_history = PStr []\<rparr> (PStr []))"
  by (simp_all add: Patient_from_dict_def dict_get_def get_patient_class_tag bind_args_def
        Patient_params_def Patient_init_def)

text \<open>
  A record without the key \<open>type\<close> does not reach the check that raises \<open>ValueError\<close>:
  \<open>get\<close> returns \<open>None\<close>, and \<open>get_patient_class\<close> fails on \<open>None.lower()\<close>.
\<close>

lemma from_dict_type_absent:
  "map_of data (u ''type'') = None \<Longrightarrow> Patient_from_dict data = Inl AttributeError"
  by (simp add: Patient_from_dict_def dict_get_def)

text \<open>
  Claim C7 at a record without \<open>type\<close>: the claim says \<open>ValueError\<close>, the program
  raises \<open>AttributeError\<close>.
\<close>

theorem C7_type_absent:
  "Patient_from_dict record_without_type = Inl AttributeError
   \<and> (\<forall>msg. Patient_from_dict record_without_type \<noteq> Inl (ValueError msg))"
  by (simp add: from_dict_type_absent record_without_type_def)

subsection \<open>C8: the factory does not validate age and gender\<close>

lemma get_patient_class_not_Patient: "get_patient_class t \<noteq> Some Patient_class"
  by (simp add: get_patient_class_eq)

text \<open>
  The setters are where the values are checked: they refuse the age 200 and a gender
  that is neither of the two codes.
\<close>

lemma setters_validate:
  "set_age (PInt 200) (p, out) = (Inr (), p, out @ [msg_invalid_age])"
  "set_gender (PStr (u ''x'')) (p, out) = (Inr (), p, out @ [msg_invalid_gender])"
  by (simp_all add: set_age_def set_gender_def bind_err_def gender_m_def gender_f_def u_def)

text \<open>
  Claim C8: for every tag that resolves to a class and for arbitrary values of the
  fields, \<open>create_patient\<close> called with the fields in order (and the subclass's own
  field where the class has one) succeeds, and the patient it returns is of that class
  and holds in \<open>age\<close> and \<open>gender\<close> exactly the values passed.
\<close>

theorem C8_factory_no_validation:
  assumes "get_patient_class tag = Some c"
  shows "\<exists>p. create_patient tag
                ([pid, nm, ag, gd, mh] @ (if c = PatientWithNotifications_class then [] else [x]))
                [] = Inr p
             \<and> class_of p = c \<and> age (base_of p) = ag \<and> gender (base_of p) = gd"
proof (cases c)
  case Patient_class
  with assms show ?thesis by (simp add: get_patient_class_not_Patient)
next
  case AdultPatient_class
  with assms show ?thesis
    by (simp add: create_patient_def bind_args_def Patient_params_def Patient_init_def)
next
  case ChildPatient_class
  with assms show ?thesis
    by (simp add: create_patient_def bind_args_def Patient_params_def Patient_init_def)
next
  case SeniorPatient_class
  with assms show ?thesis
    by (simp add: create_patient_def bind_args_def Patient_params_def Patient_init_def)
next
  case PatientWithNotifications_class
  with assms show ?thesis
    by (simp add: create_patient_def bind_args_def Patient_params_def Patient_init_def)
qed

theorem C8_factory_no_validation_witness:
  "get_patient_class (u ''seniorpatient'') = Some SeniorPatient_class \<and>
   (\<exists>p. create_patient (u ''seniorpatient'')
           [PStr (u ''S789''), PStr (u ''Petr Ivanov''), PInt 200, PStr (u ''x''),
            PStr (u ''hypertension''), PStr (u ''diabetes'')] [] = Inr p
        \<and> class_of p = SeniorPatient_class \<and> age (base_of p) = PInt 200
        \<and> gender (base_of p) = PStr (u ''x''))"
proof -
  have h: "get_patient_class (u ''seniorpatient'') = Some SeniorPatient_class"
    by (rule get_patient_class_tag)
  from C8_factory_no_validation [OF h, of "PStr (u ''S789'')" "PStr (u ''Petr Ivanov'')"
      "PInt 200" "PStr (u ''x'')" "PStr (u ''hypertension'')" "PStr (u ''diabetes'')"] h
  show ?thesis by simp
qed

subsection \<open>C9: round trip of an appointment through its record\<close>

lemma add_services_records:
  "add_services ap (map (\<lambda>s. PDict [(u ''name'', Service.name s), (u ''price'', price s)]) ss) =
     Inr (ap\<lparr>services := services ap @ ss\<rparr>)"
  by (induction ss arbitrary: ap) (simp_all add: bind_err_def add_service_def)

lemma foldl_add_service:
  "foldl add_service ap ss = ap\<lparr>services := services ap @ ss\<rparr>"
  by (induction ss arbitrary: ap) (simp_all add: add_service_def)

text \<open>
  The round trip returns the appointment with every field and every service as it was,
  and the patient as \<open>Patient.from_dict\<close> returns it.
\<close>

lemma Appointment_roundtrip_general:
  "Appointment_from_dict (Appointment_to_dict a) =
     Inr (a\<lparr>patient := with_base (\<lambda>b. b\<lparr>medical_history :=
            if truthy (medical_history b) then medical_history b else PStr []\<rparr>) (patient a)\<rparr>)"
  by (simp add: Appointment_from_dict_def Appointment_to_dict_def bind_err_def
        Patient_roundtrip_general add_services_records Appointment_init_def)

text \<open>
  Claim C9, as amended: for every appointment whose patient has a medical history that
  is not empty or is the empty text, \<open>Appointment.from_dict(a.to_dict())\<close> succeeds and
  yields an appointment equal to \<open>a\<close> in every field, the patient and the doctor's data
  included, with the same services in the same order; it is the freshly constructed
  appointment to which the services were added one by one in their order.
\<close>

theorem C9_appointment_roundtrip:
  assumes "truthy (medical_history (base_of (patient a))) \<or>
           medical_history (base_of (patient a)) = PStr []"
  shows "Appointment_from_dict (Appointment_to_dict a) = Inr a
       \<and> Appointment_from_dict (Appointment_to_dict a) =
           Inr (foldl add_service
                  (Appointment_init (appointment_id a) (patient a) (doctor a) (date a)
                     (diagnosis a) (prescription a) (doctor_info a))
                  (services a))"
proof -
  have "with_base (\<lambda>b. b\<lparr>medical_history :=
            if truthy (medical_history b) then medical_history b else PStr []\<rparr>) (patient a)
        = patient a"
    using assms by (cases "patient a") auto
  then have "Appointment_from_dict (Appointment_to_dict a) = Inr a"
    by (simp add: Appointment_roundtrip_general)
  then show ?thesis
    by (simp add: foldl_add_service Appointment_init_def)
qed

theorem C9_appointment_roundtrip_witness:
  "(truthy (medical_history (base_of (patient (example_appointment (PStr (u ''flu'')))))) \<or>
    medical_history (base_of (patient (example_appointment (PStr (u ''flu''))))) = PStr []) \<and>
   Appointment_from_dict (Appointment_to_dict (example_appointment (PStr (u ''flu'')))) =
     Inr (example_appointment (PStr (u ''flu'')))"
proof -
  have h:
    "truthy (medical_history (base_of (patient (example_appointment (PStr (u ''flu'')))))) \<or>
     medical_history (base_of (patient (example_appointment (PStr (u ''flu''))))) = PStr []"
    by (simp add: example_appointment_def example_patient_def u_def)
  from C9_appointment_roundtrip [OF h] h show ?thesis by blast
qed

text \<open>
  The claim as stated fails for an appointment whose patient has the medical history
  \<open>None\<close>: the patient of the result has the empty text there.
\<close>

theorem C9_appointment_roundtrip_counterexample:
  "Appointment_from_dict (Appointment_to_dict (example_appointment PNone)) =
     Inr (example_appointment (PStr []))
   \<and> patient (example_appointment (PStr [])) \<noteq> patient (example_appointment PNone)"
  by (simp add: Appointment_roundtrip_general example_appointment_def example_patient_def)

subsection \<open>C10: the registry holds every concrete subclass\<close>

text \<open>
  Claim C10: the registry maps the lowercased name of each of the four concrete
  subclasses to the class and has no other key; in particular
  \<open>patientwithnotifications\<close> resolves, and \<open>create_patient\<close> with that tag and the
  five common fields returns a \<open>PatientWithNotifications\<close>, which is none of the
  adult, child and senior classes.
\<close>

theorem C10_registry_all_subclasses:
  "registry (lower (class_name AdultPatient_class)) = Some AdultPatient_class
   \<and> registry (lower (class_name ChildPatient_class)) = Some ChildPatient_class
   \<and> registry (lower (class_name SeniorPatient_class)) = Some SeniorPatient_class
   \<and> registry (lower (class_name PatientWithNotifications_class)) =
       Some PatientWithNotifications_class
   \<and> dom registry =
       {u ''adultpatient'', u ''childpatient'', u ''seniorpatient'',
        u ''patientwithnotifications''}
   \<and> get_patient_class (u ''patientwithnotifications'') = Some PatientWithNotifications_class
   \<and> create_patient (u ''patientwithnotifications'') [pid, nm, ag, gd, mh] [] =
       Inr (PatientWithNotifications
              \<lparr>patient_id = pid, name = nm, age = ag, gender = gd, medical_history = mh\<rparr>)
   \<and> class_of (PatientWithNotifications
              \<lparr>patient_id = pid, name = nm, age = ag, gender = gd, medical_history = mh\<rparr>)
       \<notin> {AdultPatient_class, ChildPatient_class, SeniorPatient_class}"
proof -
  have d: "dom registry =
       {u ''adultpatient'', u ''childpatient'', u ''seniorpatient'',
        u ''patientwithnotifications''}"
    by (auto simp add: registry_eq split: if_splits)
  have c: "create_patient (u ''patientwithnotifications'') [pid, nm, ag, gd, mh] [] =
       Inr (PatientWithNotifications
              \<lparr>patient_id = pid, name = nm, age = ag, gender = gd, medical_history = mh\<rparr>)"
    by (simp add: create_patient_def get_patient_class_tag bind_args_def Patient_params_def
          Patient_init_def)
  have r: "registry (lower (class_name AdultPatient_class)) = Some AdultPatient_class"
    "registry (lower (class_name ChildPatient_class)) = Some ChildPatient_class"
    "registry (lower (class_name SeniorPatient_class)) = Some SeniorPatient_class"
    "registry (lower (class_name PatientWithNotifications_class)) =
       Some PatientWithNotifications_class"
    by (simp_all add: lower_class_name registry_eq)
  from r d c show ?thesis
    by (simp only: get_patient_class_tag class_of.simps) simp
qed

end
